theory Spec2Isabelle
  imports Complex_Main "HOL-Library.Multiset"
begin

section \<open>Values and exceptions\<close>

text \<open>
  The Python values that can reach the \<open>price\<close> argument of \<open>create_meal\<close>. A finite
  float is the rational it denotes; the module only compares a price with 0, which is
  exact. NaN and the infinities are outside the model. \<open>bool\<close> is a subclass of \<open>int\<close>
  in Python.
\<close>

datatype pyvalue = PyInt int | PyFloat rat | PyBool bool | PyStr string | PyNone

text \<open>
  \<open>isinstance(price, (int, float))\<close> together with the number the value denotes:
  \<open>None\<close> is the failed \<open>isinstance\<close> test.
\<close>

fun isinstance_int_float :: "pyvalue \<Rightarrow> rat option" where
  "isinstance_int_float (PyInt n) = Some (of_int n)"
| "isinstance_int_float (PyFloat q) = Some q"
| "isinstance_int_float (PyBool b) = Some (if b then 1 else 0)"
| "isinstance_int_float (PyStr s) = None"
| "isinstance_int_float PyNone = None"

text \<open>What \<open>requests.get\<close> and \<open>raise_for_status\<close> raise.\<close>

datatype requests_exception = Timeout | HTTPError nat | RequestException string

text \<open>
  Every exception of the two modules is a \<open>ValueError\<close> or a \<open>RuntimeError\<close>; the message
  is what tells one failure from another. One constructor per message of the source.
\<close>

datatype message =
    Price_must_be_a_positive_value
  | Difficulty_must_be_LOW_MED_or_HIGH
  | Invalid_price pyvalue
  | Invalid_difficulty_level string
  | Meal_with_name_already_exists string
  | Meal_with_ID_has_been_deleted int
  | Meal_with_ID_not_found int
  | Meal_with_name_has_been_deleted string
  | Meal_with_name_not_found string
  | Invalid_sort_by_parameter string
  | Invalid_result string
  | Invalid_response_from_random_org string
  | Request_to_random_org_timed_out
  | Request_to_random_org_failed requests_exception

datatype exn = ValueError message | RuntimeError message

section \<open>Arithmetic on floats\<close>

text \<open>
  The engine's \<open>REAL\<close> and Python's \<open>float\<close> are IEEE binary64. A finite float is the
  rational it denotes, and every operation returns the float nearest to the exact
  result, a tie going to the even significand. The exponent range is not modelled: the
  quotient and the product of integers of 64 bits stay far inside it.
\<close>

text \<open>The number of binary digits of a positive integer.\<close>

function bit_length :: "int \<Rightarrow> int" where
  "bit_length n = (if n \<le> 0 then 0 else bit_length (n div 2) + 1)"
  by auto
termination
  by (relation "measure nat") auto

declare bit_length.simps [simp del]

text \<open>The power of two with an integer exponent.\<close>

definition pow2 :: "int \<Rightarrow> rat" where
  "pow2 k = (if 0 \<le> k then 2 ^ nat k else 1 / 2 ^ nat (- k))"

text \<open>The nearest integer, a tie going to the even one.\<close>

definition round_half_even :: "rat \<Rightarrow> int" where
  "round_half_even y =
     (let f = \<lfloor>y\<rfloor>; d = y - of_int f in
      if d < 1 / 2 then f
      else if 1 / 2 < d then f + 1
      else if even f then f else f + 1)"

text \<open>
  The float nearest to \<open>x\<close>. For \<open>x \<noteq> 0\<close> the exponent \<open>e\<close> is the one with
  \<open>2 ^ 52 \<le> \<bar>x\<bar> / 2 ^ e < 2 ^ 53\<close>: the binary logarithm of \<open>\<bar>x\<bar> = n / d\<close>, rounded down, is
  the difference \<open>k\<close> of the bit lengths of \<open>n\<close> and \<open>d\<close> or one less. The significand is
  \<open>\<bar>x\<bar> / 2 ^ e\<close> rounded to the nearest integer, a tie going to the even one.
\<close>

definition binary64 :: "rat \<Rightarrow> rat" where
  "binary64 x =
     (if x = 0 then 0
      else
        let a = \<bar>x\<bar>;
            n = fst (quotient_of a);
            d = snd (quotient_of a);
            k = bit_length n - bit_length d;
            e = (if pow2 k \<le> a then k else k - 1) - 52;
            m = round_half_even (a / pow2 e)
        in sgn x * of_int m * pow2 e)"

text \<open>
  An integer used as a float (the engine's \<open>wins * 1.0\<close>, Python's \<open>x * 100\<close>), and the
  product and the quotient of two floats.
\<close>

definition float_of_int :: "int \<Rightarrow> rat" where
  "float_of_int n = binary64 (of_int n)"

definition float_mul :: "rat \<Rightarrow> rat \<Rightarrow> rat" where
  "float_mul a b = binary64 (a * b)"

definition float_div :: "rat \<Rightarrow> rat \<Rightarrow> rat" where
  "float_div a b = binary64 (a / b)"

section \<open>The Meal dataclass\<close>

record Meal =
  id_no :: int
  meal :: string
  cuisine :: string
  price :: rat
  difficulty :: string

text \<open>The dataclass constructor followed by \<open>__post_init__\<close>.\<close>

definition Meal_init :: "int \<Rightarrow> string \<Rightarrow> string \<Rightarrow> rat \<Rightarrow> string \<Rightarrow> exn + Meal" where
  "Meal_init i m c p d =
     (if p < 0 then Inl (ValueError Price_must_be_a_positive_value)
      else if d \<notin> set [''LOW'', ''MED'', ''HIGH'']
        then Inl (ValueError Difficulty_must_be_LOW_MED_or_HIGH)
      else Inr \<lparr>id_no = i, meal = m, cuisine = c, price = p, difficulty = d\<rparr>)"

section \<open>The store\<close>

text \<open>One row of the table \<open>meals\<close>, a field per column.\<close>

record meals_row =
  col_id :: int
  col_meal :: string
  col_cuisine :: string
  col_price :: rat
  col_difficulty :: string
  col_battles :: int
  col_wins :: int
  col_deleted :: bool

datatype order_by = ORDER_BY_win_pct_DESC | ORDER_BY_wins_DESC

text \<open>The statements the module passes to \<open>cursor.execute\<close>, with their parameters.\<close>

datatype statement =
    INSERT_INTO_meals string string rat string
  | SELECT_deleted_WHERE_id int
  | UPDATE_SET_deleted_WHERE_id int
  | SELECT_leaderboard order_by
  | SELECT_meal_WHERE_id int
  | SELECT_meal_WHERE_meal string
  | UPDATE_SET_battles_wins_WHERE_id int
  | UPDATE_SET_battles_WHERE_id int

text \<open>
  The database: the rows of \<open>meals\<close> in insertion order, and the statements executed so
  far, oldest first. The second field is what makes "storage was not contacted" a
  property of the model.
\<close>

record store =
  meals :: "meals_row list"
  executed :: "statement list"

definition execute :: "statement \<Rightarrow> store \<Rightarrow> store" where
  "execute s st = st\<lparr>executed := executed st @ [s]\<rparr>"

datatype sqlite3_error = IntegrityError

text \<open>
  Modelled from the spec: the schema of \<open>meals\<close> is not among the source files; the spec
  gives it as \<open>meals(id PK autoincrement, meal TEXT UNIQUE, cuisine TEXT, price REAL,
  difficulty TEXT, battles INTEGER DEFAULT 0, wins INTEGER DEFAULT 0, deleted BOOLEAN
  DEFAULT FALSE)\<close>. The id of a new row is one more than the largest id in use, and 1 on
  the empty table; no row is ever removed, so that is also the largest id ever used.
\<close>

fun largest_id :: "meals_row list \<Rightarrow> int" where
  "largest_id [] = 0"
| "largest_id (r # rs) = max (col_id r) (largest_id rs)"

text \<open>
  Modelled from the spec: the \<open>INSERT INTO meals (meal, cuisine, price, difficulty)\<close> of
  \<open>create_meal\<close> under that schema. A name already in the table violates \<open>UNIQUE\<close> and
  the engine raises the integrity error; otherwise a row is appended with a fresh id and
  the defaults \<open>battles = 0\<close>, \<open>wins = 0\<close>, \<open>deleted = false\<close> in the columns the statement
  does not name.
\<close>

definition insert_row :: "string \<Rightarrow> string \<Rightarrow> rat \<Rightarrow> string \<Rightarrow> store
    \<Rightarrow> (sqlite3_error + unit) \<times> store" where
  "insert_row m c p d st =
     (let st1 = execute (INSERT_INTO_meals m c p d) st in
      if m \<in> set (map col_meal (meals st)) then (Inl IntegrityError, st1)
      else (Inr (),
            st1\<lparr>meals := meals st @
              [\<lparr>col_id = largest_id (meals st) + 1, col_meal = m, col_cuisine = c,
                col_price = p, col_difficulty = d, col_battles = 0, col_wins = 0,
                col_deleted = False\<rparr>]\<rparr>))"

text \<open>\<open>SELECT ... WHERE id = ?\<close> followed by \<open>fetchone\<close>: the first matching row, if any.\<close>

definition fetchone_id :: "int \<Rightarrow> meals_row list \<Rightarrow> meals_row option" where
  "fetchone_id i rows = find (\<lambda>r. col_id r = i) rows"

definition fetchone_meal :: "string \<Rightarrow> meals_row list \<Rightarrow> meals_row option" where
  "fetchone_meal n rows = find (\<lambda>r. col_meal r = n) rows"

text \<open>\<open>UPDATE meals SET ... WHERE id = ?\<close>: every matching row is rewritten.\<close>

definition update_where_id :: "int \<Rightarrow> (meals_row \<Rightarrow> meals_row) \<Rightarrow> meals_row list
    \<Rightarrow> meals_row list" where
  "update_where_id i f rows = map (\<lambda>r. if col_id r = i then f r else r) rows"

section \<open>kitchen_model\<close>

definition create_meal :: "string \<Rightarrow> string \<Rightarrow> pyvalue \<Rightarrow> string \<Rightarrow> store
    \<Rightarrow> (exn + unit) \<times> store" where
  "create_meal m c p d st =
     (case isinstance_int_float p of
        None \<Rightarrow> (Inl (ValueError (Invalid_price p)), st)
      | Some v \<Rightarrow>
          if v \<le> 0 then (Inl (ValueError (Invalid_price p)), st)
          else if d \<notin> set [''LOW'', ''MED'', ''HIGH'']
            then (Inl (ValueError (Invalid_difficulty_level d)), st)
          else (case insert_row m c v d st of
                  (Inl IntegrityError, st1) \<Rightarrow>
                    (Inl (ValueError (Meal_with_name_already_exists m)), st1)
                | (Inr u, st1) \<Rightarrow> (Inr (), st1)))"

definition delete_meal :: "int \<Rightarrow> store \<Rightarrow> (exn + unit) \<times> store" where
  "delete_meal i st =
     (let st1 = execute (SELECT_deleted_WHERE_id i) st in
      case fetchone_id i (meals st) of
        None \<Rightarrow> (Inl (ValueError (Meal_with_ID_not_found i)), st1)
      | Some r \<Rightarrow>
          if col_deleted r then (Inl (ValueError (Meal_with_ID_has_been_deleted i)), st1)
          else (Inr (),
                (execute (UPDATE_SET_deleted_WHERE_id i) st1)
                  \<lparr>meals := update_where_id i (\<lambda>r. r\<lparr>col_deleted := True\<rparr>) (meals st)\<rparr>))"

text \<open>
  One entry of the leaderboard: the dictionary with the keys \<open>id\<close>, \<open>meal\<close>, \<open>cuisine\<close>,
  \<open>price\<close>, \<open>difficulty\<close>, \<open>battles\<close>, \<open>wins\<close> and \<open>win_pct\<close>.
\<close>

record entry =
  key_id :: int
  key_meal :: string
  key_cuisine :: string
  key_price :: rat
  key_difficulty :: string
  key_battles :: int
  key_wins :: int
  key_win_pct :: rat

text \<open>
  Python's \<open>round(x, 1)\<close> on a float: the exact value of \<open>x\<close> is rounded to the nearest
  decimal with one digit after the point, a tie going to the even digit, and the result
  is the float nearest to that decimal.
\<close>

definition round1 :: "rat \<Rightarrow> rat" where
  "round1 x = binary64 (of_int (round_half_even (x * 10)) / 10)"

text \<open>
  The expression \<open>wins * 1.0 / battles\<close> of the query on two integers: the integer becomes
  a float to be multiplied by \<open>1.0\<close>, and the divisor becomes a float to divide by. The
  query evaluates it only on rows with \<open>battles > 0\<close>.
\<close>

definition sql_ratio :: "int \<Rightarrow> int \<Rightarrow> rat" where
  "sql_ratio w b = float_div (float_mul (float_of_int w) 1) (float_of_int b)"

text \<open>The computed column \<open>(wins * 1.0 / battles) AS win_pct\<close>.\<close>

definition win_pct :: "meals_row \<Rightarrow> rat" where
  "win_pct r = sql_ratio (col_wins r) (col_battles r)"

text \<open>
  The query of the leaderboard followed by \<open>fetchall\<close>: the rows that pass the \<open>WHERE\<close>
  clause, each with its computed column, in descending order of the sort column. Rows
  that tie keep their table order (the engine promises no order among them).
\<close>

definition fetchall_leaderboard :: "order_by \<Rightarrow> meals_row list \<Rightarrow> (meals_row \<times> rat) list" where
  "fetchall_leaderboard ob rows =
     (let sel = map (\<lambda>r. (r, win_pct r))
                  (filter (\<lambda>r. col_deleted r = False \<and> col_battles r > 0) rows)
      in case ob of
           ORDER_BY_win_pct_DESC \<Rightarrow> sort_key (\<lambda>(r, w). - w) sel
         | ORDER_BY_wins_DESC \<Rightarrow> sort_key (\<lambda>(r, w). - col_wins r) sel)"

definition leaderboard_entry :: "meals_row \<times> rat \<Rightarrow> entry" where
  "leaderboard_entry row =
     \<lparr>key_id = col_id (fst row), key_meal = col_meal (fst row),
      key_cuisine = col_cuisine (fst row), key_price = col_price (fst row),
      key_difficulty = col_difficulty (fst row), key_battles = col_battles (fst row),
      key_wins = col_wins (fst row), key_win_pct = round1 (float_mul (snd row) 100)\<rparr>"

definition get_leaderboard :: "string \<Rightarrow> store \<Rightarrow> (exn + entry list) \<times> store" where
  "get_leaderboard sort_by st =
     (if sort_by = ''win_pct'' then
        (Inr (map leaderboard_entry (fetchall_leaderboard ORDER_BY_win_pct_DESC (meals st))),
         execute (SELECT_leaderboard ORDER_BY_win_pct_DESC) st)
      else if sort_by = ''wins'' then
        (Inr (map leaderboard_entry (fetchall_leaderboard ORDER_BY_wins_DESC (meals st))),
         execute (SELECT_leaderboard ORDER_BY_wins_DESC) st)
      else (Inl (ValueError (Invalid_sort_by_parameter sort_by)), st))"

definition get_meal_by_id :: "int \<Rightarrow> store \<Rightarrow> (exn + Meal) \<times> store" where
  "get_meal_by_id i st =
     (let st1 = execute (SELECT_meal_WHERE_id i) st in
      case fetchone_id i (meals st) of
        Some row \<Rightarrow>
          if col_deleted row then (Inl (ValueError (Meal_with_ID_has_been_deleted i)), st1)
          else (Meal_init (col_id row) (col_meal row) (col_cuisine row) (col_price row)
                  (col_difficulty row), st1)
      | None \<Rightarrow> (Inl (ValueError (Meal_with_ID_not_found i)), st1))"

definition get_meal_by_name :: "string \<Rightarrow> store \<Rightarrow> (exn + Meal) \<times> store" where
  "get_meal_by_name n st =
     (let st1 = execute (SELECT_meal_WHERE_meal n) st in
      case fetchone_meal n (meals st) of
        Some row \<Rightarrow>
          if col_deleted row then (Inl (ValueError (Meal_with_name_has_been_deleted n)), st1)
          else (Meal_init (col_id row) (col_meal row) (col_cuisine row) (col_price row)
                  (col_difficulty row), st1)
      | None \<Rightarrow> (Inl (ValueError (Meal_with_name_not_found n)), st1))"

definition update_meal_stats :: "int \<Rightarrow> string \<Rightarrow> store \<Rightarrow> (exn + unit) \<times> store" where
  "update_meal_stats i result st =
     (let st1 = execute (SELECT_deleted_WHERE_id i) st in
      case fetchone_id i (meals st) of
        None \<Rightarrow> (Inl (ValueError (Meal_with_ID_not_found i)), st1)
      | Some r \<Rightarrow>
          if col_deleted r then (Inl (ValueError (Meal_with_ID_has_been_deleted i)), st1)
          else if result = ''win'' then
            (Inr (),
             (execute (UPDATE_SET_battles_wins_WHERE_id i) st1)
               \<lparr>meals := update_where_id i
                  (\<lambda>r. r\<lparr>col_battles := col_battles r + 1, col_wins := col_wins r + 1\<rparr>)
                  (meals st)\<rparr>)
          else if result = ''loss'' then
            (Inr (),
             (execute (UPDATE_SET_battles_WHERE_id i) st1)
               \<lparr>meals := update_where_id i
                  (\<lambda>r. r\<lparr>col_battles := col_battles r + 1\<rparr>) (meals st)\<rparr>)
          else (Inl (ValueError (Invalid_result result)), st1))"

section \<open>The operations as steps of the store\<close>

datatype operation =
    Create_meal string string pyvalue string
  | Delete_meal int
  | Get_leaderboard string
  | Get_meal_by_id int
  | Get_meal_by_name string
  | Update_meal_stats int string

text \<open>The store after one call, whether the call returns or raises.\<close>

fun step :: "operation \<Rightarrow> store \<Rightarrow> store" where
  "step (Create_meal m c p d) st = snd (create_meal m c p d st)"
| "step (Delete_meal i) st = snd (delete_meal i st)"
| "step (Get_leaderboard sort_by) st = snd (get_leaderboard sort_by st)"
| "step (Get_meal_by_id i) st = snd (get_meal_by_id i st)"
| "step (Get_meal_by_name n) st = snd (get_meal_by_name n st)"
| "step (Update_meal_stats i result) st = snd (update_meal_stats i result st)"

definition run :: "operation list \<Rightarrow> store \<Rightarrow> store" where
  "run ops st = fold step ops st"

definition empty_store :: store where
  "empty_store = \<lparr>meals = [], executed = []\<rparr>"

text \<open>The counters of every row are in range.\<close>

definition counters_ok :: "store \<Rightarrow> bool" where
  "counters_ok st = list_all (\<lambda>r. 0 \<le> col_wins r \<and> col_wins r \<le> col_battles r) (meals st)"

text \<open>
  The row \<open>r\<close> is deleted and is the row that both the lookup by the id \<open>i\<close> and the
  lookup by its own name fetch.
\<close>

definition fetched_deleted :: "int \<Rightarrow> meals_row \<Rightarrow> store \<Rightarrow> bool" where
  "fetched_deleted i r st =
     (fetchone_id i (meals st) = Some r \<and> fetchone_meal (col_meal r) (meals st) = Some r
      \<and> col_deleted r)"

section \<open>random_utils\<close>

datatype response = Response (status_code: nat) (response_text: string)

text \<open>\<open>Response.raise_for_status\<close>: a 4xx or 5xx status raises \<open>HTTPError\<close>.\<close>

definition raise_for_status :: "response \<Rightarrow> requests_exception + unit" where
  "raise_for_status r =
     (if 400 \<le> status_code r \<and> status_code r < 600 then Inl (HTTPError (status_code r))
      else Inr ())"

text \<open>
  \<open>str.strip()\<close> with no argument: whitespace is removed at both ends. The characters are
  those of Latin-1 that Python counts as whitespace.
\<close>

definition isspace :: "char \<Rightarrow> bool" where
  "isspace c = ((of_char c :: nat) \<in> set [9, 10, 11, 12, 13, 28, 29, 30, 31, 32, 133, 160])"

definition strip :: "string \<Rightarrow> string" where
  "strip s = rev (dropWhile isspace (rev (dropWhile isspace s)))"

text \<open>The two \<open>except\<close> clauses, tried in the order of the source.\<close>

fun except_requests :: "requests_exception \<Rightarrow> exn" where
  "except_requests Timeout = RuntimeError Request_to_random_org_timed_out"
| "except_requests e = RuntimeError (Request_to_random_org_failed e)"

text \<open>
  \<open>get_random\<close>. The first argument is the builtin \<open>float\<close> on strings, \<open>None\<close> where it
  raises \<open>ValueError\<close>; the second is what \<open>requests.get(url, timeout=5)\<close> did: it raised,
  or it returned a response.
\<close>

definition get_random :: "(string \<Rightarrow> 'f option) \<Rightarrow> requests_exception + response \<Rightarrow> exn + 'f" where
  "get_random float got =
     (case got of
        Inl e \<Rightarrow> Inl (except_requests e)
      | Inr response \<Rightarrow>
          (case raise_for_status response of
             Inl e \<Rightarrow> Inl (except_requests e)
           | Inr u \<Rightarrow>
               (let random_number_str = strip (response_text response) in
                case float random_number_str of
                  None \<Rightarrow> Inl (ValueError (Invalid_response_from_random_org random_number_str))
                | Some random_number \<Rightarrow> Inr random_number)))"

text \<open>
  An instance of the builtin for evaluation: \<open>float\<close> on the plain decimal fractions the
  endpoint answers with (\<open>format=plain\<close>), that is digits, or digits, a point and digits.
  It is applied in this file to such strings and to strings that hold a letter other
  than those of \<open>inf\<close>, \<open>nan\<close> and the exponent mark, which Python's \<open>float\<close> rejects too.
\<close>

definition isdigit :: "char \<Rightarrow> bool" where
  "isdigit c = (48 \<le> (of_char c :: nat) \<and> (of_char c :: nat) \<le> 57)"

definition digits_value :: "string \<Rightarrow> nat" where
  "digits_value ds = foldl (\<lambda>a c. 10 * a + (of_char c - 48)) 0 ds"

definition float_plain :: "string \<Rightarrow> rat option" where
  "float_plain s =
     (let ip = takeWhile isdigit s; rest = dropWhile isdigit s in
      if ip = [] then None
      else if rest = [] then Some (of_nat (digits_value ip))
      else if hd rest = CHR ''.'' \<and> tl rest \<noteq> [] \<and> list_all isdigit (tl rest)
        then Some (of_nat (digits_value ip)
                   + of_nat (digits_value (tl rest)) / 10 ^ length (tl rest))
      else None)"

section \<open>A store for evaluation\<close>

definition pizza :: meals_row where
  "pizza = \<lparr>col_id = 1, col_meal = ''Pizza'', col_cuisine = ''Italian'', col_price = 15,
     col_difficulty = ''MED'', col_battles = 5, col_wins = 4, col_deleted = False\<rparr>"

definition sushi :: meals_row where
  "sushi = \<lparr>col_id = 2, col_meal = ''Sushi'', col_cuisine = ''Japanese'', col_price = 12,
     col_difficulty = ''HIGH'', col_battles = 3, col_wins = 2, col_deleted = False\<rparr>"

definition stew :: meals_row where
  "stew = \<lparr>col_id = 3, col_meal = ''Stew'', col_cuisine = ''Irish'', col_price = 9,
     col_difficulty = ''LOW'', col_battles = 2, col_wins = 1, col_deleted = True\<rparr>"

text \<open>A row that \<open>create_meal\<close> would not have written: its price is negative.\<close>

definition gruel :: meals_row where
  "gruel = \<lparr>col_id = 4, col_meal = ''Gruel'', col_cuisine = ''Plain'', col_price = - 1,
     col_difficulty = ''LOW'', col_battles = 0, col_wins = 0, col_deleted = False\<rparr>"

definition kitchen :: store where
  "kitchen = \<lparr>meals = [pizza, sushi, stew, gruel], executed = []\<rparr>"

text \<open>
  Two rows whose percentage is decided by the rounding of the floats: 23 wins in 80
  battles and 1 win in 2000 battles.
\<close>

definition toast :: meals_row where
  "toast = \<lparr>col_id = 5, col_meal = ''Toast'', col_cuisine = ''British'', col_price = 3,
     col_difficulty = ''LOW'', col_battles = 80, col_wins = 23, col_deleted = False\<rparr>"

definition broth :: meals_row where
  "broth = \<lparr>col_id = 6, col_meal = ''Broth'', col_cuisine = ''Thai'', col_price = 7,
     col_difficulty = ''MED'', col_battles = 2000, col_wins = 1, col_deleted = False\<rparr>"


section \<open>Construction of a Meal\<close>

lemma Meal_init_Inr:
  "Meal_init i m c p d = Inr x \<Longrightarrow> 0 \<le> price x \<and> difficulty x \<in> {''LOW'', ''MED'', ''HIGH''}"
  by (auto simp: Meal_init_def split: if_splits)

lemma Meal_init_Inl:
  "p < 0 \<or> d \<notin> {''LOW'', ''MED'', ''HIGH''} \<Longrightarrow> \<exists>e. Meal_init i m c p d = Inl (ValueError e)"
  by (auto simp: Meal_init_def)

text \<open>
  C5. The claim is that constructing a Meal fails for every price \<open>\<le> 0\<close>, price 0
  included. \<open>__post_init__\<close> tests \<open>price < 0\<close>, so the Meal of the module's own boundary
  test (id 4, Salad, Vegetarian, price 0.0, LOW) is constructed and returned.
\<close>

theorem Meal_init_accepts_zero_price:
  "Meal_init 4 ''Salad'' ''Vegetarian'' 0 ''LOW'' =
     Inr \<lparr>id_no = 4, meal = ''Salad'', cuisine = ''Vegetarian'', price = 0, difficulty = ''LOW''\<rparr>"
  by (simp add: Meal_init_def)

section \<open>Validation in create_meal\<close>

text \<open>
  C8. When the price is not an int or a float, or is a number \<open>\<le> 0\<close>, or the difficulty is
  none of LOW, MED, HIGH, \<open>create_meal\<close> raises the ValueError of the price or of the
  difficulty, and the store it leaves is the store it found: no statement was executed
  and no row was inserted.
\<close>

theorem create_meal_invalid_argument:
  assumes "isinstance_int_float p = None
           \<or> (\<exists>v. isinstance_int_float p = Some v \<and> v \<le> 0)
           \<or> d \<notin> {''LOW'', ''MED'', ''HIGH''}"
  shows "(fst (create_meal m c p d st) = Inl (ValueError (Invalid_price p))
          \<or> fst (create_meal m c p d st) = Inl (ValueError (Invalid_difficulty_level d)))
         \<and> snd (create_meal m c p d st) = st"
  using assms by (auto simp: create_meal_def split: option.splits)

theorem create_meal_invalid_argument_witness:
  "(\<exists>v. isinstance_int_float (PyFloat 0) = Some v \<and> v \<le> 0)
   \<and> isinstance_int_float (PyStr ''cheap'') = None
   \<and> ''EASY'' \<notin> {''LOW'', ''MED'', ''HIGH''}
   \<and> create_meal ''Salad'' ''Vegetarian'' (PyFloat 0) ''LOW'' kitchen
       = (Inl (ValueError (Invalid_price (PyFloat 0))), kitchen)
   \<and> create_meal ''Salad'' ''Vegetarian'' (PyStr ''cheap'') ''LOW'' kitchen
       = (Inl (ValueError (Invalid_price (PyStr ''cheap''))), kitchen)
   \<and> create_meal ''Salad'' ''Vegetarian'' (PyInt 8) ''EASY'' kitchen
       = (Inl (ValueError (Invalid_difficulty_level ''EASY'')), kitchen)"
  using create_meal_invalid_argument [of "PyFloat 0" "''LOW''" "''Salad''" "''Vegetarian''" kitchen]
    create_meal_invalid_argument [of "PyStr ''cheap''" "''LOW''" "''Salad''" "''Vegetarian''" kitchen]
    create_meal_invalid_argument [of "PyInt 8" "''EASY''" "''Salad''" "''Vegetarian''" kitchen]
  by (simp add: create_meal_def)

text \<open>
  C7. On valid input whose name is the name of a row of the table, \<open>create_meal\<close> raises
  the ValueError "already exists", which it makes from the engine's integrity error, and
  the rows of the table are as before.
\<close>

theorem create_meal_duplicate_name:
  assumes "isinstance_int_float p = Some v" and "0 < v"
    and "d \<in> {''LOW'', ''MED'', ''HIGH''}"
    and "r \<in> set (meals st)" and "col_meal r = m"
  shows "fst (create_meal m c p d st) = Inl (ValueError (Meal_with_name_already_exists m))
         \<and> meals (snd (create_meal m c p d st)) = meals st"
  using assms by (auto simp: create_meal_def insert_row_def execute_def Let_def)

theorem create_meal_duplicate_name_witness:
  "isinstance_int_float (PyFloat (1099 / 100)) = Some (1099 / 100) \<and> (0::rat) < 1099 / 100
   \<and> ''MED'' \<in> {''LOW'', ''MED'', ''HIGH''}
   \<and> stew \<in> set (meals kitchen) \<and> col_meal stew = ''Stew''
   \<and> fst (create_meal ''Stew'' ''French'' (PyFloat (1099 / 100)) ''MED'' kitchen)
       = Inl (ValueError (Meal_with_name_already_exists ''Stew''))
   \<and> meals (snd (create_meal ''Stew'' ''French'' (PyFloat (1099 / 100)) ''MED'' kitchen))
       = meals kitchen"
proof -
  have a: "isinstance_int_float (PyFloat (1099 / 100)) = Some (1099 / 100)" by simp
  have b: "(0::rat) < 1099 / 100" by simp
  have c: "''MED'' \<in> {''LOW'', ''MED'', ''HIGH''}" by simp
  have d: "stew \<in> set (meals kitchen)" by (simp add: kitchen_def)
  have e: "col_meal stew = ''Stew''" by (simp add: stew_def)
  from a b c d e create_meal_duplicate_name [OF a b c d e, of "''French''"]
  show ?thesis by simp
qed

section \<open>The lookups validate what they return\<close>

lemma get_meal_by_id_Inr:
  "fst (get_meal_by_id i st) = Inr x \<Longrightarrow>
     0 \<le> price x \<and> difficulty x \<in> {''LOW'', ''MED'', ''HIGH''}"
  by (auto simp: get_meal_by_id_def Let_def split: option.splits if_splits
        dest: Meal_init_Inr)

lemma get_meal_by_name_Inr:
  "fst (get_meal_by_name n st) = Inr x \<Longrightarrow>
     0 \<le> price x \<and> difficulty x \<in> {''LOW'', ''MED'', ''HIGH''}"
  by (auto simp: get_meal_by_name_def Let_def split: option.splits if_splits
        dest: Meal_init_Inr)

lemma get_meal_by_id_invalid_row:
  assumes "fetchone_id i (meals st) = Some row"
    and "col_price row < 0 \<or> col_difficulty row \<notin> {''LOW'', ''MED'', ''HIGH''}"
  shows "\<exists>e. fst (get_meal_by_id i st) = Inl (ValueError e)"
proof -
  obtain e where "Meal_init (col_id row) (col_meal row) (col_cuisine row) (col_price row)
      (col_difficulty row) = Inl (ValueError e)"
    using Meal_init_Inl [OF assms(2)] by blast
  with assms(1) show ?thesis
    by (simp add: get_meal_by_id_def Let_def)
qed

lemma get_meal_by_name_invalid_row:
  assumes "fetchone_meal n (meals st) = Some row"
    and "col_price row < 0 \<or> col_difficulty row \<notin> {''LOW'', ''MED'', ''HIGH''}"
  shows "\<exists>e. fst (get_meal_by_name n st) = Inl (ValueError e)"
proof -
  obtain e where "Meal_init (col_id row) (col_meal row) (col_cuisine row) (col_price row)
      (col_difficulty row) = Inl (ValueError e)"
    using Meal_init_Inl [OF assms(2)] by blast
  with assms(1) show ?thesis
    by (simp add: get_meal_by_name_def Let_def)
qed

text \<open>
  C10. \<open>get_meal_by_id\<close> and \<open>get_meal_by_name\<close> build their result with the Meal
  constructor. So a Meal they return has a price \<open>\<ge> 0\<close> and a difficulty among LOW, MED,
  HIGH; and when the row the query fetches has a negative price or another difficulty,
  the lookup raises a ValueError instead of returning.
\<close>

theorem lookups_validate_row:
  "(fst (get_meal_by_id i st) = Inr x \<longrightarrow>
      0 \<le> price x \<and> difficulty x \<in> {''LOW'', ''MED'', ''HIGH''})
   \<and> (fst (get_meal_by_name n st) = Inr y \<longrightarrow>
      0 \<le> price y \<and> difficulty y \<in> {''LOW'', ''MED'', ''HIGH''})
   \<and> (fetchone_id i (meals st) = Some row
        \<and> (col_price row < 0 \<or> col_difficulty row \<notin> {''LOW'', ''MED'', ''HIGH''}) \<longrightarrow>
      (\<exists>e. fst (get_meal_by_id i st) = Inl (ValueError e)))
   \<and> (fetchone_meal n (meals st) = Some row
        \<and> (col_price row < 0 \<or> col_difficulty row \<notin> {''LOW'', ''MED'', ''HIGH''}) \<longrightarrow>
      (\<exists>e. fst (get_meal_by_name n st) = Inl (ValueError e)))"
  using get_meal_by_id_Inr [of i st x] get_meal_by_name_Inr [of n st y]
    get_meal_by_id_invalid_row [of i st row] get_meal_by_name_invalid_row [of n st row]
  by blast

theorem lookups_validate_row_witness:
  "fst (get_meal_by_id 1 kitchen)
     = Inr \<lparr>id_no = 1, meal = ''Pizza'', cuisine = ''Italian'', price = 15, difficulty = ''MED''\<rparr>
   \<and> fst (get_meal_by_name ''Sushi'' kitchen)
     = Inr \<lparr>id_no = 2, meal = ''Sushi'', cuisine = ''Japanese'', price = 12, difficulty = ''HIGH''\<rparr>
   \<and> (0::rat) \<le> 15 \<and> (0::rat) \<le> 12
   \<and> fetchone_id 4 (meals kitchen) = Some gruel
   \<and> fetchone_meal ''Gruel'' (meals kitchen) = Some gruel
   \<and> col_price gruel < 0
   \<and> (\<exists>e. fst (get_meal_by_id 4 kitchen) = Inl (ValueError e))
   \<and> (\<exists>e. fst (get_meal_by_name ''Gruel'' kitchen) = Inl (ValueError e))"
proof -
  have a: "fst (get_meal_by_id 1 kitchen)
     = Inr \<lparr>id_no = 1, meal = ''Pizza'', cuisine = ''Italian'', price = 15, difficulty = ''MED''\<rparr>"
    by (simp add: get_meal_by_id_def kitchen_def pizza_def fetchone_id_def Meal_init_def)
  have b: "fst (get_meal_by_name ''Sushi'' kitchen)
     = Inr \<lparr>id_no = 2, meal = ''Sushi'', cuisine = ''Japanese'', price = 12, difficulty = ''HIGH''\<rparr>"
    by (simp add: get_meal_by_name_def kitchen_def pizza_def sushi_def fetchone_meal_def
          Meal_init_def)
  have c: "fetchone_id 4 (meals kitchen) = Some gruel"
    by (simp add: kitchen_def pizza_def sushi_def stew_def gruel_def fetchone_id_def)
  have d: "fetchone_meal ''Gruel'' (meals kitchen) = Some gruel"
    by (simp add: kitchen_def pizza_def sushi_def stew_def gruel_def fetchone_meal_def)
  have e: "col_price gruel < 0" by (simp add: gruel_def)
  from a b c d e
    lookups_validate_row [of 1 kitchen
      "\<lparr>id_no = 1, meal = ''Pizza'', cuisine = ''Italian'', price = 15, difficulty = ''MED''\<rparr>"
      "''Sushi''"
      "\<lparr>id_no = 2, meal = ''Sushi'', cuisine = ''Japanese'', price = 12, difficulty = ''HIGH''\<rparr>"
      gruel]
    lookups_validate_row [of 4 kitchen _ "''Gruel''" _ gruel]
  show ?thesis by simp
qed

section \<open>update_meal_stats\<close>

lemma update_where_id_nth:
  "k < length rows \<Longrightarrow>
   update_where_id i f rows ! k = (if col_id (rows ! k) = i then f (rows ! k) else rows ! k)"
  by (simp add: update_where_id_def)

lemma length_update_where_id: "length (update_where_id i f rows) = length rows"
  by (simp add: update_where_id_def)

text \<open>
  C2. When the row \<open>fetchone\<close> finds for the id is not deleted, \<open>update_meal_stats\<close> with
  \<open>win\<close> returns and adds exactly 1 to \<open>battles\<close> and to \<open>wins\<close> of the rows with that id,
  and with \<open>loss\<close> returns and adds exactly 1 to \<open>battles\<close> alone; every other column of
  those rows and every other row is as before, and no row is added or removed.
\<close>

theorem update_meal_stats_counters:
  assumes "fetchone_id i (meals st) = Some r" and "\<not> col_deleted r"
    and "won = snd (update_meal_stats i ''win'' st)"
    and "lost = snd (update_meal_stats i ''loss'' st)"
  shows "fst (update_meal_stats i ''win'' st) = Inr ()
    \<and> fst (update_meal_stats i ''loss'' st) = Inr ()
    \<and> length (meals won) = length (meals st)
    \<and> length (meals lost) = length (meals st)
    \<and> (\<forall>k < length (meals st).
          if col_id (meals st ! k) = i
          then meals won ! k = (meals st ! k)
                 \<lparr>col_battles := col_battles (meals st ! k) + 1,
                  col_wins := col_wins (meals st ! k) + 1\<rparr>
             \<and> meals lost ! k = (meals st ! k)
                 \<lparr>col_battles := col_battles (meals st ! k) + 1\<rparr>
          else meals won ! k = meals st ! k \<and> meals lost ! k = meals st ! k)"
  using assms
  by (simp add: update_meal_stats_def Let_def execute_def update_where_id_nth
        length_update_where_id)

theorem update_meal_stats_counters_witness:
  "fetchone_id 2 (meals kitchen) = Some sushi \<and> \<not> col_deleted sushi
   \<and> fst (update_meal_stats 2 ''win'' kitchen) = Inr ()
   \<and> fst (update_meal_stats 2 ''loss'' kitchen) = Inr ()
   \<and> meals (snd (update_meal_stats 2 ''win'' kitchen)) ! 1
       = sushi\<lparr>col_battles := 4, col_wins := 3\<rparr>
   \<and> meals (snd (update_meal_stats 2 ''loss'' kitchen)) ! 1 = sushi\<lparr>col_battles := 4\<rparr>
   \<and> meals (snd (update_meal_stats 2 ''win'' kitchen)) ! 0 = pizza
   \<and> meals (snd (update_meal_stats 2 ''loss'' kitchen)) ! 0 = pizza"
proof -
  have a: "fetchone_id 2 (meals kitchen) = Some sushi"
    by (simp add: fetchone_id_def kitchen_def pizza_def sushi_def)
  have b: "\<not> col_deleted sushi" by (simp add: sushi_def)
  have c: "col_id pizza = 1" "col_id sushi = 2" "col_battles sushi = 3" "col_wins sushi = 2"
    by (simp_all add: pizza_def sushi_def)
  have ms: "meals kitchen = [pizza, sushi, stew, gruel]" by (simp add: kitchen_def)
  note t = update_meal_stats_counters [OF a b refl refl]
  from t have t0: "fst (update_meal_stats 2 ''win'' kitchen) = Inr ()
      \<and> fst (update_meal_stats 2 ''loss'' kitchen) = Inr ()"
    by blast
  from t have "\<forall>k < length (meals kitchen).
          if col_id (meals kitchen ! k) = 2
          then meals (snd (update_meal_stats 2 ''win'' kitchen)) ! k = (meals kitchen ! k)
                 \<lparr>col_battles := col_battles (meals kitchen ! k) + 1,
                  col_wins := col_wins (meals kitchen ! k) + 1\<rparr>
             \<and> meals (snd (update_meal_stats 2 ''loss'' kitchen)) ! k = (meals kitchen ! k)
                 \<lparr>col_battles := col_battles (meals kitchen ! k) + 1\<rparr>
          else meals (snd (update_meal_stats 2 ''win'' kitchen)) ! k = meals kitchen ! k
             \<and> meals (snd (update_meal_stats 2 ''loss'' kitchen)) ! k = meals kitchen ! k"
    by blast
  from this [rule_format, of 0] this [rule_format, of 1] a b t0
  show ?thesis by (simp add: ms c)
qed

text \<open>
  C4, as the spec states it: every result other than \<open>win\<close> and \<open>loss\<close> is rejected as an
  invalid argument before the store is touched, whatever the id. It fails on an id with
  no row: the lookup is executed first, and the error is "not found".
\<close>

theorem update_meal_stats_invalid_result_not_found:
  "''draw'' \<notin> {''win'', ''loss''}
   \<and> update_meal_stats 7 ''draw'' kitchen
       = (Inl (ValueError (Meal_with_ID_not_found 7)),
          kitchen\<lparr>executed := [SELECT_deleted_WHERE_id 7]\<rparr>)
   \<and> fst (update_meal_stats 7 ''draw'' kitchen) \<noteq> Inl (ValueError (Invalid_result ''draw''))
   \<and> executed (snd (update_meal_stats 7 ''draw'' kitchen)) \<noteq> executed kitchen"
  by (simp add: update_meal_stats_def execute_def fetchone_id_def kitchen_def
        pizza_def sushi_def stew_def gruel_def)

text \<open>
  C4, as the code has it: with a result other than \<open>win\<close> and \<open>loss\<close>, \<open>update_meal_stats\<close>
  executes the lookup of the deleted flag and nothing else, leaves every row as it was,
  and raises "not found" when the id has no row, "has been deleted" when the row is
  deleted, and "Invalid result" when the row is there and active.
\<close>

theorem update_meal_stats_invalid_result:
  assumes "result \<notin> {''win'', ''loss''}"
  shows "snd (update_meal_stats i result st) = execute (SELECT_deleted_WHERE_id i) st
    \<and> meals (snd (update_meal_stats i result st)) = meals st
    \<and> (fetchone_id i (meals st) = None \<longrightarrow>
         fst (update_meal_stats i result st) = Inl (ValueError (Meal_with_ID_not_found i)))
    \<and> (\<forall>r. fetchone_id i (meals st) = Some r \<and> col_deleted r \<longrightarrow>
         fst (update_meal_stats i result st) = Inl (ValueError (Meal_with_ID_has_been_deleted i)))
    \<and> (\<forall>r. fetchone_id i (meals st) = Some r \<and> \<not> col_deleted r \<longrightarrow>
         fst (update_meal_stats i result st) = Inl (ValueError (Invalid_result result)))"
  using assms
  by (auto simp: update_meal_stats_def Let_def execute_def split: option.splits)

theorem update_meal_stats_invalid_result_witness:
  "''draw'' \<notin> {''win'', ''loss''}
   \<and> fetchone_id 7 (meals kitchen) = None
   \<and> fetchone_id 3 (meals kitchen) = Some stew \<and> col_deleted stew
   \<and> fetchone_id 1 (meals kitchen) = Some pizza \<and> \<not> col_deleted pizza
   \<and> fst (update_meal_stats 7 ''draw'' kitchen) = Inl (ValueError (Meal_with_ID_not_found 7))
   \<and> fst (update_meal_stats 3 ''draw'' kitchen) = Inl (ValueError (Meal_with_ID_has_been_deleted 3))
   \<and> fst (update_meal_stats 1 ''draw'' kitchen) = Inl (ValueError (Invalid_result ''draw''))
   \<and> meals (snd (update_meal_stats 1 ''draw'' kitchen)) = meals kitchen
   \<and> snd (update_meal_stats 1 ''draw'' kitchen) = execute (SELECT_deleted_WHERE_id 1) kitchen"
proof -
  have a: "''draw'' \<notin> {''win'', ''loss''}" by simp
  have b: "fetchone_id 7 (meals kitchen) = None"
    by (simp add: fetchone_id_def kitchen_def pizza_def sushi_def stew_def gruel_def)
  have c: "fetchone_id 3 (meals kitchen) = Some stew"
    by (simp add: fetchone_id_def kitchen_def pizza_def sushi_def stew_def)
  have d: "col_deleted stew" by (simp add: stew_def)
  have e: "fetchone_id 1 (meals kitchen) = Some pizza"
    by (simp add: fetchone_id_def kitchen_def pizza_def)
  have f: "\<not> col_deleted pizza" by (simp add: pizza_def)
  from a b c d e f
    update_meal_stats_invalid_result [OF a, of 7 kitchen]
    update_meal_stats_invalid_result [OF a, of 3 kitchen]
    update_meal_stats_invalid_result [OF a, of 1 kitchen]
  show ?thesis by (simp add: execute_def)
qed

section \<open>get_random\<close>

lemma except_requests_timed_out:
  "except_requests e = RuntimeError Request_to_random_org_timed_out \<longleftrightarrow> e = Timeout"
  by (cases e) simp_all

lemma except_requests_failed:
  "except_requests e = RuntimeError (Request_to_random_org_failed e') \<longleftrightarrow> e \<noteq> Timeout \<and> e' = e"
  by (cases e) auto

lemma except_requests_not_ValueError: "except_requests e \<noteq> ValueError msg"
  by (cases e) simp_all

lemma raise_for_status_Inl:
  "raise_for_status r = Inl e \<longleftrightarrow>
     400 \<le> status_code r \<and> status_code r < 600 \<and> e = HTTPError (status_code r)"
  by (auto simp: raise_for_status_def)

lemma raise_for_status_Inr:
  "raise_for_status r = Inr () \<longleftrightarrow> \<not> (400 \<le> status_code r \<and> status_code r < 600)"
  by (auto simp: raise_for_status_def)

lemma get_random_timed_out:
  "get_random float got = Inl (RuntimeError Request_to_random_org_timed_out) \<longleftrightarrow> got = Inl Timeout"
  by (auto simp: get_random_def Let_def except_requests_timed_out raise_for_status_Inl
      raise_for_status_Inr split: sum.splits option.splits)

lemma get_random_failed:
  "get_random float got = Inl (RuntimeError (Request_to_random_org_failed e)) \<longleftrightarrow>
     (got = Inl e \<and> e \<noteq> Timeout)
     \<or> (\<exists>r. got = Inr r \<and> 400 \<le> status_code r \<and> status_code r < 600
            \<and> e = HTTPError (status_code r))"
  by (auto simp: get_random_def Let_def except_requests_failed raise_for_status_Inl
      raise_for_status_Inr split: sum.splits option.splits)

lemma get_random_invalid_response:
  "get_random float got = Inl (ValueError msg) \<longleftrightarrow>
     (\<exists>r. got = Inr r \<and> \<not> (400 \<le> status_code r \<and> status_code r < 600)
          \<and> float (strip (response_text r)) = None
          \<and> msg = Invalid_response_from_random_org (strip (response_text r)))"
  by (auto simp: get_random_def Let_def except_requests_not_ValueError raise_for_status_Inl
      raise_for_status_Inr split: sum.splits option.splits)

lemma get_random_returns:
  "get_random float got = Inr x \<longleftrightarrow>
     (\<exists>r. got = Inr r \<and> \<not> (400 \<le> status_code r \<and> status_code r < 600)
          \<and> float (strip (response_text r)) = Some x)"
  by (auto simp: get_random_def Let_def raise_for_status_Inl
      raise_for_status_Inr split: sum.splits option.splits)

text \<open>
  C9. \<open>get_random\<close> raises the RuntimeError "timed out" exactly when the request raised
  \<open>Timeout\<close>; the RuntimeError "failed", a different error, exactly when the request
  raised another exception of \<open>requests\<close> or the response has a 4xx or 5xx status, which
  \<open>raise_for_status\<close> turns into such an exception before the payload is read; the
  ValueError "Invalid response" exactly when a response arrived and \<open>float\<close> rejects its
  stripped text; and it returns the number that \<open>float\<close> gives for the stripped text in
  the one remaining case.
\<close>

theorem get_random_failure_modes:
  "(get_random float got = Inl (RuntimeError Request_to_random_org_timed_out)
      \<longleftrightarrow> got = Inl Timeout)
   \<and> (get_random float got = Inl (RuntimeError (Request_to_random_org_failed e))
      \<longleftrightarrow> (got = Inl e \<and> e \<noteq> Timeout)
          \<or> (\<exists>r. got = Inr r \<and> 400 \<le> status_code r \<and> status_code r < 600
                 \<and> e = HTTPError (status_code r)))
   \<and> (get_random float got = Inl (ValueError msg)
      \<longleftrightarrow> (\<exists>r. got = Inr r \<and> \<not> (400 \<le> status_code r \<and> status_code r < 600)
                 \<and> float (strip (response_text r)) = None
                 \<and> msg = Invalid_response_from_random_org (strip (response_text r))))
   \<and> (get_random float got = Inr x
      \<longleftrightarrow> (\<exists>r. got = Inr r \<and> \<not> (400 \<le> status_code r \<and> status_code r < 600)
                 \<and> float (strip (response_text r)) = Some x))
   \<and> RuntimeError Request_to_random_org_timed_out \<noteq> RuntimeError (Request_to_random_org_failed e)
   \<and> ValueError msg \<noteq> RuntimeError Request_to_random_org_timed_out
   \<and> ValueError msg \<noteq> RuntimeError (Request_to_random_org_failed e)"
  using get_random_timed_out [of float got] get_random_failed [of float got e]
    get_random_invalid_response [of float got msg] get_random_returns [of float got x]
  by simp

theorem get_random_failure_modes_witness:
  "get_random float_plain (Inl Timeout) = Inl (RuntimeError Request_to_random_org_timed_out)
   \<and> get_random float_plain (Inl (RequestException ''Network error''))
       = Inl (RuntimeError (Request_to_random_org_failed (RequestException ''Network error'')))
   \<and> get_random float_plain (Inr (Response 503 ''0.45''))
       = Inl (RuntimeError (Request_to_random_org_failed (HTTPError 503)))
   \<and> get_random float_plain (Inr (Response 200 ''invalid_text''))
       = Inl (ValueError (Invalid_response_from_random_org ''invalid_text''))
   \<and> get_random float_plain (Inr (Response 200 (''0.45'' @ [CHR 0x0A]))) = Inr (45 / 100)"
proof -
  have s1: "strip ''invalid_text'' = ''invalid_text''" by code_simp
  have s2: "strip (''0.45'' @ [CHR 0x0A]) = ''0.45''" by code_simp
  have f1: "float_plain ''invalid_text'' = None" by code_simp
  have f2: "float_plain ''0.45'' = Some (45 / 100)" by code_simp
  show ?thesis
    using get_random_failure_modes [of float_plain "Inl Timeout"]
      get_random_failure_modes [of float_plain "Inl (RequestException ''Network error'')"
        "RequestException ''Network error''"]
      get_random_failure_modes [of float_plain "Inr (Response 503 ''0.45'')" "HTTPError 503"]
      get_random_failure_modes [of float_plain "Inr (Response 200 ''invalid_text'')" _
        "Invalid_response_from_random_org ''invalid_text''"]
      get_random_failure_modes [of float_plain "Inr (Response 200 (''0.45'' @ [CHR 0x0A]))" _ _
        "45 / 100"]
      s1 s2 f1 f2
    by simp
qed

section \<open>The rows after each operation\<close>

lemma meals_execute: "meals (execute s st) = meals st"
  by (simp add: execute_def)

lemma create_meal_meals:
  "meals (snd (create_meal m c p d st)) = meals st
   \<or> (\<exists>v. fst (create_meal m c p d st) = Inr ()
          \<and> meals (snd (create_meal m c p d st)) = meals st @
              [\<lparr>col_id = largest_id (meals st) + 1, col_meal = m, col_cuisine = c,
                col_price = v, col_difficulty = d, col_battles = 0, col_wins = 0,
                col_deleted = False\<rparr>])"
  by (auto simp: create_meal_def insert_row_def Let_def meals_execute split: option.splits)

lemma create_meal_Inr:
  "fst (create_meal m c p d st) = Inr () \<Longrightarrow>
   \<exists>v. isinstance_int_float p = Some v \<and> 0 < v \<and>
     meals (snd (create_meal m c p d st)) = meals st @
              [\<lparr>col_id = largest_id (meals st) + 1, col_meal = m, col_cuisine = c,
                col_price = v, col_difficulty = d, col_battles = 0, col_wins = 0,
                col_deleted = False\<rparr>]"
  by (auto simp: create_meal_def insert_row_def Let_def meals_execute
      split: option.splits if_splits)

lemma delete_meal_meals:
  "meals (snd (delete_meal i st)) =
     (case fetchone_id i (meals st) of
        None \<Rightarrow> meals st
      | Some r \<Rightarrow> if col_deleted r then meals st
                  else update_where_id i (\<lambda>r. r\<lparr>col_deleted := True\<rparr>) (meals st))"
  by (simp add: delete_meal_def Let_def meals_execute split: option.splits)

lemma update_meal_stats_meals:
  "meals (snd (update_meal_stats i result st)) =
     (case fetchone_id i (meals st) of
        None \<Rightarrow> meals st
      | Some r \<Rightarrow>
          if col_deleted r then meals st
          else if result = ''win'' then
            update_where_id i
              (\<lambda>r. r\<lparr>col_battles := col_battles r + 1, col_wins := col_wins r + 1\<rparr>) (meals st)
          else if result = ''loss'' then
            update_where_id i (\<lambda>r. r\<lparr>col_battles := col_battles r + 1\<rparr>) (meals st)
          else meals st)"
  by (simp add: update_meal_stats_def Let_def meals_execute split: option.splits)

lemma get_leaderboard_meals: "meals (snd (get_leaderboard sort_by st)) = meals st"
  by (simp add: get_leaderboard_def meals_execute)

lemma get_meal_by_id_meals: "meals (snd (get_meal_by_id i st)) = meals st"
  by (simp add: get_meal_by_id_def Let_def meals_execute split: option.splits)

lemma get_meal_by_name_meals: "meals (snd (get_meal_by_name n st)) = meals st"
  by (simp add: get_meal_by_name_def Let_def meals_execute split: option.splits)

section \<open>The counters stay in range\<close>

lemma counters_ok_create: "counters_ok st \<Longrightarrow> counters_ok (snd (create_meal m c p d st))"
  using create_meal_meals [of m c p d st] by (auto simp: counters_ok_def)

lemma counters_ok_delete: "counters_ok st \<Longrightarrow> counters_ok (snd (delete_meal i st))"
  unfolding counters_ok_def delete_meal_meals
  by (auto simp: update_where_id_def list_all_iff split: option.splits)

lemma counters_ok_update_meal_stats:
  "counters_ok st \<Longrightarrow> counters_ok (snd (update_meal_stats i result st))"
  unfolding counters_ok_def update_meal_stats_meals
  by (auto simp: update_where_id_def list_all_iff split: option.splits)

lemma counters_ok_step: "counters_ok st \<Longrightarrow> counters_ok (step op st)"
proof (cases op)
  case (Create_meal m c p d)
  assume "counters_ok st"
  with Create_meal show ?thesis by (simp add: counters_ok_create)
next
  case (Delete_meal i)
  assume "counters_ok st"
  with Delete_meal show ?thesis by (simp add: counters_ok_delete)
next
  case (Get_leaderboard sort_by)
  assume "counters_ok st"
  with Get_leaderboard show ?thesis by (simp add: counters_ok_def get_leaderboard_meals)
next
  case (Get_meal_by_id i)
  assume "counters_ok st"
  with Get_meal_by_id show ?thesis by (simp add: counters_ok_def get_meal_by_id_meals)
next
  case (Get_meal_by_name n)
  assume "counters_ok st"
  with Get_meal_by_name show ?thesis by (simp add: counters_ok_def get_meal_by_name_meals)
next
  case (Update_meal_stats i result)
  assume "counters_ok st"
  with Update_meal_stats show ?thesis by (simp add: counters_ok_update_meal_stats)
qed

lemma counters_ok_run: "counters_ok st \<Longrightarrow> counters_ok (run ops st)"
  unfolding run_def by (induction ops arbitrary: st) (simp_all add: counters_ok_step)

text \<open>
  C6. A call of \<open>create_meal\<close> that returns has appended one row, whose \<open>battles\<close> and
  \<open>wins\<close> are 0. When every row of the store has \<open>0 \<le> wins \<le> battles\<close>, so has every
  row after any one operation, returning or raising, and after any sequence of
  operations; in particular in every store reached from the empty one.
\<close>

theorem counters_in_range:
  "(fst (create_meal m c p d st) = Inr () \<longrightarrow>
      (\<exists>r. meals (snd (create_meal m c p d st)) = meals st @ [r]
           \<and> col_battles r = 0 \<and> col_wins r = 0))
   \<and> (counters_ok st \<longrightarrow> counters_ok (step op st))
   \<and> (counters_ok st \<longrightarrow> counters_ok (run ops st))
   \<and> counters_ok (run ops empty_store)"
proof -
  have "counters_ok empty_store" by (simp add: counters_ok_def empty_store_def)
  then have "counters_ok (run ops empty_store)" by (rule counters_ok_run)
  moreover have "fst (create_meal m c p d st) = Inr () \<longrightarrow>
      (\<exists>r. meals (snd (create_meal m c p d st)) = meals st @ [r]
           \<and> col_battles r = 0 \<and> col_wins r = 0)"
    using create_meal_Inr [of m c p d st] by auto
  ultimately show ?thesis by (simp add: counters_ok_step counters_ok_run)
qed


theorem counters_in_range_witness:
  "fst (create_meal ''Ramen'' ''Japanese'' (PyFloat 11) ''MED'' kitchen) = Inr ()
   \<and> (\<exists>r. meals (snd (create_meal ''Ramen'' ''Japanese'' (PyFloat 11) ''MED'' kitchen))
            = meals kitchen @ [r] \<and> col_battles r = 0 \<and> col_wins r = 0)
   \<and> counters_ok kitchen
   \<and> counters_ok (step (Update_meal_stats 2 ''win'') kitchen)
   \<and> counters_ok (run [Update_meal_stats 2 ''win'', Delete_meal 1, Update_meal_stats 1 ''loss'']
        kitchen)
   \<and> counters_ok (run [Create_meal ''Ramen'' ''Japanese'' (PyFloat 11) ''MED'',
        Update_meal_stats 1 ''loss'', Update_meal_stats 1 ''win''] empty_store)"
proof -
  have a: "fst (create_meal ''Ramen'' ''Japanese'' (PyFloat 11) ''MED'' kitchen) = Inr ()"
    by (simp add: create_meal_def insert_row_def execute_def kitchen_def pizza_def sushi_def
        stew_def gruel_def)
  have b: "counters_ok kitchen"
    by (simp add: counters_ok_def kitchen_def pizza_def sushi_def stew_def gruel_def)
  from a b
    counters_in_range [of "''Ramen''" "''Japanese''" "PyFloat 11" "''MED''" kitchen
      "Update_meal_stats 2 ''win''"
      "[Update_meal_stats 2 ''win'', Delete_meal 1, Update_meal_stats 1 ''loss'']"]
    counters_in_range [of _ _ _ _ _ _
      "[Create_meal ''Ramen'' ''Japanese'' (PyFloat 11) ''MED'',
        Update_meal_stats 1 ''loss'', Update_meal_stats 1 ''win'']"]
  show ?thesis by blast
qed

section \<open>The deleted flag is terminal\<close>

lemma find_map_preserved:
  "(\<And>y. P (g y) = P y) \<Longrightarrow> find P (map g xs) = map_option g (find P xs)"
  by (induction xs) simp_all

lemma find_append_Some: "find P xs = Some x \<Longrightarrow> find P (xs @ ys) = Some x"
  by (induction xs) (simp_all split: if_splits)

lemma find_distinct_key:
  "distinct (map f xs) \<Longrightarrow> x \<in> set xs \<Longrightarrow> find (\<lambda>y. f y = f x) xs = Some x"
  by (induction xs) auto

lemma fetchone_id_Some: "fetchone_id i rows = Some r \<Longrightarrow> r \<in> set rows \<and> col_id r = i"
  unfolding fetchone_id_def by (induction rows) (auto split: if_splits)

lemma fetched_deleted_same_meals:
  "fetched_deleted i r st \<Longrightarrow> meals st' = meals st \<Longrightarrow> fetched_deleted i r st'"
  by (simp add: fetched_deleted_def)

lemma fetched_deleted_append:
  "fetched_deleted i r st \<Longrightarrow> meals st' = meals st @ rows \<Longrightarrow> fetched_deleted i r st'"
  by (simp add: fetched_deleted_def fetchone_id_def fetchone_meal_def find_append_Some)

lemma fetched_deleted_update:
  assumes "fetched_deleted i r st" and "meals st' = update_where_id j f (meals st)"
    and "j \<noteq> i" and "\<And>y. col_id (f y) = col_id y" and "\<And>y. col_meal (f y) = col_meal y"
  shows "fetched_deleted i r st'"
proof -
  let ?g = "\<lambda>y. if col_id y = j then f y else y"
  have r: "col_id r = i"
    using assms(1) by (auto simp: fetched_deleted_def dest: fetchone_id_Some)
  with assms(3) have g: "?g r = r" by simp
  have "find (\<lambda>y. col_id y = i) (map ?g (meals st))
      = map_option ?g (find (\<lambda>y. col_id y = i) (meals st))"
    by (rule find_map_preserved) (simp add: assms(4))
  moreover have "find (\<lambda>y. col_meal y = col_meal r) (map ?g (meals st))
      = map_option ?g (find (\<lambda>y. col_meal y = col_meal r) (meals st))"
    by (rule find_map_preserved) (simp add: assms(5))
  ultimately show ?thesis
    using assms(1,2) g
    by (simp add: fetched_deleted_def fetchone_id_def fetchone_meal_def update_where_id_def)
qed

lemma fetched_deleted_create:
  "fetched_deleted i r st \<Longrightarrow> fetched_deleted i r (snd (create_meal m c p d st))"
  using create_meal_meals [of m c p d st]
  by (auto intro: fetched_deleted_same_meals fetched_deleted_append)

lemma fetched_deleted_delete:
  assumes a: "fetched_deleted i r st"
  shows "fetched_deleted i r (snd (delete_meal j st))"
proof (cases "meals (snd (delete_meal j st)) = meals st")
  case True
  with a show ?thesis by (rule fetched_deleted_same_meals)
next
  case False
  then have u: "meals (snd (delete_meal j st))
      = update_where_id j (\<lambda>r. r\<lparr>col_deleted := True\<rparr>) (meals st)"
    and "\<exists>x. fetchone_id j (meals st) = Some x \<and> \<not> col_deleted x"
    by (auto simp: delete_meal_meals split: option.splits if_splits)
  with a have "j \<noteq> i" by (auto simp: fetched_deleted_def)
  with a u show ?thesis by (rule fetched_deleted_update) simp_all
qed

lemma fetched_deleted_update_meal_stats:
  assumes a: "fetched_deleted i r st"
  shows "fetched_deleted i r (snd (update_meal_stats j result st))"
proof (cases "meals (snd (update_meal_stats j result st)) = meals st")
  case True
  with a show ?thesis by (rule fetched_deleted_same_meals)
next
  case False
  then have ex: "\<exists>x. fetchone_id j (meals st) = Some x \<and> \<not> col_deleted x"
    by (auto simp: update_meal_stats_meals split: option.splits if_splits)
  with a have ji: "j \<noteq> i" by (auto simp: fetched_deleted_def)
  from False ex have "meals (snd (update_meal_stats j result st))
      = update_where_id j
          (\<lambda>r. r\<lparr>col_battles := col_battles r + 1, col_wins := col_wins r + 1\<rparr>) (meals st)
    \<or> meals (snd (update_meal_stats j result st))
      = update_where_id j (\<lambda>r. r\<lparr>col_battles := col_battles r + 1\<rparr>) (meals st)"
    by (auto simp: update_meal_stats_meals split: if_splits)
  then show ?thesis
  proof
    assume "meals (snd (update_meal_stats j result st))
      = update_where_id j
          (\<lambda>r. r\<lparr>col_battles := col_battles r + 1, col_wins := col_wins r + 1\<rparr>) (meals st)"
    with a show ?thesis using ji by (rule fetched_deleted_update) simp_all
  next
    assume "meals (snd (update_meal_stats j result st))
      = update_where_id j (\<lambda>r. r\<lparr>col_battles := col_battles r + 1\<rparr>) (meals st)"
    with a show ?thesis using ji by (rule fetched_deleted_update) simp_all
  qed
qed

lemma fetched_deleted_step: "fetched_deleted i r st \<Longrightarrow> fetched_deleted i r (step op st)"
proof (cases op)
  case (Create_meal m c p d)
  assume "fetched_deleted i r st"
  with Create_meal show ?thesis by (simp add: fetched_deleted_create)
next
  case (Delete_meal j)
  assume "fetched_deleted i r st"
  with Delete_meal show ?thesis by (simp add: fetched_deleted_delete)
next
  case (Get_leaderboard sort_by)
  assume "fetched_deleted i r st"
  with Get_leaderboard show ?thesis
    by (simp add: fetched_deleted_def get_leaderboard_meals)
next
  case (Get_meal_by_id j)
  assume "fetched_deleted i r st"
  with Get_meal_by_id show ?thesis by (simp add: fetched_deleted_def get_meal_by_id_meals)
next
  case (Get_meal_by_name n)
  assume "fetched_deleted i r st"
  with Get_meal_by_name show ?thesis by (simp add: fetched_deleted_def get_meal_by_name_meals)
next
  case (Update_meal_stats j result)
  assume "fetched_deleted i r st"
  with Update_meal_stats show ?thesis by (simp add: fetched_deleted_update_meal_stats)
qed

lemma fetched_deleted_run: "fetched_deleted i r st \<Longrightarrow> fetched_deleted i r (run ops st)"
  unfolding run_def by (induction ops arbitrary: st) (simp_all add: fetched_deleted_step)

lemma delete_meal_first:
  assumes f: "fetchone_id i (meals st) = Some r" and nd: "\<not> col_deleted r"
    and u: "distinct (map col_meal (meals st))"
  shows "fst (delete_meal i st) = Inr ()"
    and "fetched_deleted i (r\<lparr>col_deleted := True\<rparr>) (snd (delete_meal i st))"
proof -
  show "fst (delete_meal i st) = Inr ()"
    using f nd by (simp add: delete_meal_def Let_def)
  let ?g = "\<lambda>y. if col_id y = i then y\<lparr>col_deleted := True\<rparr> else y"
  have m: "meals (snd (delete_meal i st)) = map ?g (meals st)"
    using f nd by (simp add: delete_meal_meals update_where_id_def)
  have r: "r \<in> set (meals st)" "col_id r = i" using fetchone_id_Some [OF f] by simp_all
  have n: "find (\<lambda>y. col_meal y = col_meal r) (meals st) = Some r"
    using find_distinct_key [OF u r(1)] .
  have "find (\<lambda>y. col_id y = i) (map ?g (meals st))
      = map_option ?g (find (\<lambda>y. col_id y = i) (meals st))"
    by (rule find_map_preserved) simp
  moreover have "find (\<lambda>y. col_meal y = col_meal r) (map ?g (meals st))
      = map_option ?g (find (\<lambda>y. col_meal y = col_meal r) (meals st))"
    by (rule find_map_preserved) simp
  ultimately show "fetched_deleted i (r\<lparr>col_deleted := True\<rparr>) (snd (delete_meal i st))"
    using f n m r(2) by (simp add: fetched_deleted_def fetchone_id_def fetchone_meal_def)
qed

lemma fetched_deleted_rejects:
  assumes "fetched_deleted i r st"
  shows "delete_meal i st = (Inl (ValueError (Meal_with_ID_has_been_deleted i)),
            execute (SELECT_deleted_WHERE_id i) st)"
    and "get_meal_by_id i st = (Inl (ValueError (Meal_with_ID_has_been_deleted i)),
            execute (SELECT_meal_WHERE_id i) st)"
    and "get_meal_by_name (col_meal r) st
           = (Inl (ValueError (Meal_with_name_has_been_deleted (col_meal r))),
              execute (SELECT_meal_WHERE_meal (col_meal r)) st)"
    and "update_meal_stats i result st = (Inl (ValueError (Meal_with_ID_has_been_deleted i)),
            execute (SELECT_deleted_WHERE_id i) st)"
  using assms
  by (simp_all add: fetched_deleted_def delete_meal_def get_meal_by_id_def get_meal_by_name_def
      update_meal_stats_def Let_def)

text \<open>
  C3. Let the lookup by the id fetch a row that is not deleted, in a table whose names
  are unique as the schema demands. Then \<open>delete_meal\<close> returns and the row is fetched
  with \<open>deleted\<close> set and nothing else changed. After any further sequence of operations
  the lookup still fetches that very row, so nothing has written to it and it is still
  deleted; and \<open>delete_meal\<close>, \<open>get_meal_by_id\<close>, \<open>get_meal_by_name\<close> on its name and
  \<open>update_meal_stats\<close> with any result raise "has been deleted", return no Meal, and
  leave a store that differs only by the one lookup statement added to the log.
\<close>

theorem deleted_is_terminal:
  assumes "fetchone_id i (meals st) = Some r" and "\<not> col_deleted r"
    and "distinct (map col_meal (meals st))"
    and "after = run ops (snd (delete_meal i st))"
  shows "fst (delete_meal i st) = Inr ()
    \<and> fetchone_id i (meals (snd (delete_meal i st))) = Some (r\<lparr>col_deleted := True\<rparr>)
    \<and> fetchone_id i (meals after) = Some (r\<lparr>col_deleted := True\<rparr>)
    \<and> delete_meal i after = (Inl (ValueError (Meal_with_ID_has_been_deleted i)),
          execute (SELECT_deleted_WHERE_id i) after)
    \<and> get_meal_by_id i after = (Inl (ValueError (Meal_with_ID_has_been_deleted i)),
          execute (SELECT_meal_WHERE_id i) after)
    \<and> get_meal_by_name (col_meal r) after
        = (Inl (ValueError (Meal_with_name_has_been_deleted (col_meal r))),
           execute (SELECT_meal_WHERE_meal (col_meal r)) after)
    \<and> update_meal_stats i result after = (Inl (ValueError (Meal_with_ID_has_been_deleted i)),
          execute (SELECT_deleted_WHERE_id i) after)
    \<and> meals (execute s after) = meals after"
proof -
  note d = delete_meal_first [OF assms(1-3)]
  from d(2) have a: "fetched_deleted i (r\<lparr>col_deleted := True\<rparr>) after"
    unfolding assms(4) by (rule fetched_deleted_run)
  from d a fetched_deleted_rejects(1-3) [OF a] fetched_deleted_rejects(4) [OF a, of result]
  show ?thesis
    by (simp add: fetched_deleted_def meals_execute)
qed


theorem deleted_is_terminal_witness:
  "fetchone_id 2 (meals kitchen) = Some sushi \<and> \<not> col_deleted sushi
   \<and> distinct (map col_meal (meals kitchen))
   \<and> fst (delete_meal 2 kitchen) = Inr ()
   \<and> fetchone_id 2 (meals (snd (delete_meal 2 kitchen))) = Some (sushi\<lparr>col_deleted := True\<rparr>)
   \<and> fetchone_id 2
        (meals (run [Update_meal_stats 2 ''win'', Delete_meal 2, Delete_meal 1,
                     Create_meal ''Sushi'' ''Fusion'' (PyInt 9) ''LOW'']
                  (snd (delete_meal 2 kitchen))))
       = Some (sushi\<lparr>col_deleted := True\<rparr>)
   \<and> fst (delete_meal 2
        (run [Update_meal_stats 2 ''win'', Delete_meal 2, Delete_meal 1,
              Create_meal ''Sushi'' ''Fusion'' (PyInt 9) ''LOW'']
           (snd (delete_meal 2 kitchen))))
       = Inl (ValueError (Meal_with_ID_has_been_deleted 2))
   \<and> fst (get_meal_by_id 2
        (run [Update_meal_stats 2 ''win'', Delete_meal 2, Delete_meal 1,
              Create_meal ''Sushi'' ''Fusion'' (PyInt 9) ''LOW'']
           (snd (delete_meal 2 kitchen))))
       = Inl (ValueError (Meal_with_ID_has_been_deleted 2))
   \<and> fst (get_meal_by_name ''Sushi''
        (run [Update_meal_stats 2 ''win'', Delete_meal 2, Delete_meal 1,
              Create_meal ''Sushi'' ''Fusion'' (PyInt 9) ''LOW'']
           (snd (delete_meal 2 kitchen))))
       = Inl (ValueError (Meal_with_name_has_been_deleted ''Sushi''))
   \<and> fst (update_meal_stats 2 ''loss''
        (run [Update_meal_stats 2 ''win'', Delete_meal 2, Delete_meal 1,
              Create_meal ''Sushi'' ''Fusion'' (PyInt 9) ''LOW'']
           (snd (delete_meal 2 kitchen))))
       = Inl (ValueError (Meal_with_ID_has_been_deleted 2))"
proof -
  have a: "fetchone_id 2 (meals kitchen) = Some sushi"
    by (simp add: fetchone_id_def kitchen_def pizza_def sushi_def)
  have b: "\<not> col_deleted sushi" by (simp add: sushi_def)
  have c: "distinct (map col_meal (meals kitchen))"
    by (simp add: kitchen_def pizza_def sushi_def stew_def gruel_def)
  have n: "col_meal sushi = ''Sushi''" by (simp add: sushi_def)
  from a b c n deleted_is_terminal [OF a b c refl, of _ "''loss''"]
  show ?thesis by simp
qed

section \<open>Rounding to the nearest float\<close>

lemma pow2_pos: "0 < pow2 k"
  by (simp add: pow2_def)

lemma pow2_powi: "pow2 k = 2 powi k"
  by (simp add: pow2_def power_int_def field_simps)

lemma pow2_add: "pow2 (a + b) = pow2 a * pow2 b"
  by (simp add: pow2_powi power_int_add)

lemma pow2_nat: "0 \<le> k \<Longrightarrow> pow2 k = of_int (2 ^ nat k)"
  by (simp add: pow2_def)

lemma bit_length_int_bounds:
  "0 < n \<Longrightarrow> 0 < bit_length n \<and> 2 ^ nat (bit_length n - 1) \<le> n \<and> n < 2 ^ nat (bit_length n)"
proof (induction n rule: bit_length.induct)
  case (1 n)
  from "1.prems" have nle: "\<not> n \<le> 0" by simp
  have b: "bit_length n = bit_length (n div 2) + 1"
    using nle by (subst bit_length.simps) simp
  show ?case
  proof (cases "n = 1")
    case True
    then show ?thesis
      by (simp add: bit_length.simps [of 1] bit_length.simps [of 0])
  next
    case False
    with "1.prems" have h: "0 < n div 2" by presburger
    from "1.IH" [OF nle h] have ih: "0 < bit_length (n div 2)"
      "2 ^ nat (bit_length (n div 2) - 1) \<le> n div 2"
      "n div 2 < 2 ^ nat (bit_length (n div 2))" by simp_all
    let ?c = "bit_length (n div 2)"
    have s1: "nat (?c + 1 - 1) = Suc (nat (?c - 1))" using ih(1) by simp
    have s2: "nat (?c + 1) = Suc (nat ?c)" using ih(1) by simp
    have "2 * 2 ^ nat (?c - 1) \<le> 2 * (n div 2)" using ih(2) by simp
    also have "\<dots> \<le> n" by presburger
    finally have lo: "2 ^ nat (?c + 1 - 1) \<le> n" by (simp only: s1 power_Suc)
    have "n div 2 + 1 \<le> 2 ^ nat ?c" using ih(3) by simp
    then have "2 * (n div 2) + 2 \<le> 2 * 2 ^ nat ?c" by simp
    moreover have "n < 2 * (n div 2) + 2" by presburger
    ultimately have hi: "n < 2 ^ nat (?c + 1)" by (simp only: s2 power_Suc)
    from ih(1) lo hi show ?thesis by (simp add: b)
  qed
qed

lemma bit_length_bounds:
  assumes "0 < n"
  shows "pow2 (bit_length n - 1) \<le> of_int n" and "of_int n < pow2 (bit_length n)"
proof -
  note b = bit_length_int_bounds [OF assms]
  from b have "(of_int (2 ^ nat (bit_length n - 1)) :: rat) \<le> of_int n"
    by (simp only: of_int_le_iff)
  with b show "pow2 (bit_length n - 1) \<le> of_int n" by (simp add: pow2_nat)
  from b have "(of_int n :: rat) < of_int (2 ^ nat (bit_length n))"
    by (simp only: of_int_less_iff)
  with b show "of_int n < pow2 (bit_length n)" by (simp add: pow2_nat)
qed


lemma round_half_even_near: "\<bar>of_int (round_half_even y) - y\<bar> \<le> 1 / 2"
proof -
  have "of_int \<lfloor>y\<rfloor> \<le> y" and "y < of_int \<lfloor>y\<rfloor> + 1" by linarith+
  then show ?thesis
    by (auto simp: round_half_even_def Let_def)
qed

text \<open>The exponent that \<open>binary64\<close> picks puts the significand between \<open>2 ^ 52\<close> and \<open>2 ^ 53\<close>.\<close>

lemma binary64_exponent:
  assumes "0 < a"
  defines "k \<equiv> bit_length (fst (quotient_of a)) - bit_length (snd (quotient_of a))"
  defines "e \<equiv> (if pow2 k \<le> a then k else k - 1) - 52"
  shows "pow2 (e + 52) \<le> a" and "a < pow2 (e + 53)"
proof -
  obtain n d where q: "quotient_of a = (n, d)" by (cases "quotient_of a")
  then have d: "0 < d" and a: "a = of_int n / of_int d"
    using quotient_of_denom_pos [OF q] quotient_of_div [OF q] by simp_all
  with assms(1) have n: "0 < n" by (simp add: zero_less_divide_iff)
  note bn = bit_length_bounds [OF n] and bd = bit_length_bounds [OF d]
  have k: "k = bit_length n - bit_length d" by (simp add: k_def q)
  have dpos: "(0::rat) < of_int d" using d by simp
  have "pow2 (k - 1) * of_int d < pow2 (k - 1) * pow2 (bit_length d)"
    using bd(2) pow2_pos [of "k - 1"] by simp
  also have "\<dots> = pow2 (bit_length n - 1)"
    unfolding k by (simp add: pow2_add [symmetric])
  also have "\<dots> \<le> of_int n" by (rule bn(1))
  finally have lo: "pow2 (k - 1) < a"
    using dpos by (simp add: a pos_less_divide_eq)
  have "of_int n < pow2 (bit_length n)" by (rule bn(2))
  also have "\<dots> = pow2 (k + 1) * pow2 (bit_length d - 1)"
    unfolding k by (simp add: pow2_add [symmetric])
  also have "\<dots> \<le> pow2 (k + 1) * of_int d"
    using bd(1) pow2_pos [of "k + 1"] by simp
  finally have hi: "a < pow2 (k + 1)"
    using dpos by (simp add: a pos_divide_less_eq)
  show "pow2 (e + 52) \<le> a" using lo by (simp add: e_def)
  show "a < pow2 (e + 53)"
  proof (cases "pow2 k \<le> a")
    case True
    then have "pow2 (e + 53) = pow2 (k + 1)" by (simp add: e_def ac_simps)
    with hi show ?thesis by (simp only:)
  next
    case False
    then have "pow2 (e + 53) = pow2 k" by (simp add: e_def)
    with False show ?thesis by (simp only: not_le)
  qed
qed

text \<open>So the float differs from the exact value by at most half a unit in the last place.\<close>

lemma binary64_near: "\<bar>binary64 x - x\<bar> \<le> \<bar>x\<bar> / 2 ^ 53"
proof (cases "x = 0")
  case True
  then show ?thesis by (simp add: binary64_def)
next
  case False
  define a where "a = \<bar>x\<bar>"
  define k where "k = bit_length (fst (quotient_of a)) - bit_length (snd (quotient_of a))"
  define e where "e = (if pow2 k \<le> a then k else k - 1) - 52"
  define m where "m = round_half_even (a / pow2 e)"
  from False have apos: "0 < a" by (simp add: a_def)
  have b: "binary64 x = sgn x * of_int m * pow2 e"
    using False by (simp add: binary64_def Let_def a_def k_def e_def m_def)
  have x: "x = sgn x * a" by (simp add: a_def sgn_mult_abs)
  have "binary64 x - x = sgn x * (of_int m * pow2 e - a)"
    by (subst x) (simp add: b algebra_simps)
  then have "\<bar>binary64 x - x\<bar> = \<bar>of_int m * pow2 e - a\<bar>"
    using False by (simp add: abs_mult abs_sgn_eq)
  also have "\<dots> = pow2 e * \<bar>of_int m - a / pow2 e\<bar>"
  proof -
    have "of_int m * pow2 e - a = pow2 e * (of_int m - a / pow2 e)"
      using pow2_pos [of e] by (simp add: field_simps)
    then show ?thesis using pow2_pos [of e] by (simp add: abs_mult)
  qed
  also have "\<dots> \<le> pow2 e * (1 / 2)"
    using round_half_even_near [of "a / pow2 e"] pow2_pos [of e]
    by (simp add: m_def)
  also have "\<dots> = pow2 (e + 52) / 2 ^ 53"
  proof -
    have "pow2 52 = 2 ^ 52" by (simp add: pow2_def)
    then show ?thesis by (simp add: pow2_add)
  qed
  also have "\<dots> \<le> a / 2 ^ 53"
  proof -
    have "pow2 (e + 52) \<le> a"
      unfolding e_def k_def by (rule binary64_exponent(1) [OF apos])
    then show ?thesis by (simp add: divide_right_mono)
  qed
  finally show ?thesis by (simp add: a_def)
qed

section \<open>get_leaderboard\<close>


text \<open>
  The floats of the two rows: the product for 23 wins in 80 battles is below 28.75 and
  is rounded down to 28.7; the product for 1 win in 2000 battles is above 0.05 and is
  rounded up to 0.1; 2 wins in 3 battles give 66.7.
\<close>

lemma float_mul_win_pct_toast: "float_mul (win_pct toast) 100 < 2875 / 100"
  by code_simp

lemma round1_win_pct_toast: "round1 (float_mul (win_pct toast) 100) = binary64 (287 / 10)"
  by code_simp

lemma float_mul_win_pct_broth: "5 / 100 < float_mul (win_pct broth) 100"
  by code_simp

lemma round1_win_pct_broth: "round1 (float_mul (win_pct broth) 100) = binary64 (1 / 10)"
  by code_simp

lemma round1_win_pct_sushi: "round1 (float_mul (win_pct sushi) 100) = binary64 (667 / 10)"
  by code_simp

text \<open>
  Ties of the exact value go to the even digit: 1 win in 16 battles is 6.25 and gives
  6.2, 3 wins in 16 battles are 18.75 and give 18.8.
\<close>

lemma round1_sql_ratio_1_16: "round1 (float_mul (sql_ratio 1 16) 100) = binary64 (62 / 10)"
  by code_simp

lemma round1_sql_ratio_3_16: "round1 (float_mul (sql_ratio 3 16) 100) = binary64 (188 / 10)"
  by code_simp













end
